theory Spec2Isabelle
  imports Complex_Main "HOL-Library.Multiset"
begin

section \<open>thinc: a transcoder between brace syntax and indentation syntax\<close>

text \<open>
  A shallow embedding of \<^verbatim>\<open>thinc.py\<close>. Python strings are modelled as \<^typ>\<open>string\<close>
  (lists of 8-bit characters, read as the code points 0 to 255); Python's exceptions are
  values of the type \<open>error\<close>, and a function that can raise returns \<open>error + 'a\<close>.
  Line numbers are \<^typ>\<open>int\<close>; the first field of a tree node is \<^typ>\<open>int option\<close>, since the
  source stores \<^verbatim>\<open>None\<close> there for synthesized nodes.
\<close>

subsection \<open>Python built-ins used by the source\<close>

datatype error = IndexError | UnboundLocalError

definition IND_AMT :: nat where
  "IND_AMT = 4"

text \<open>\<^verbatim>\<open>str.isspace\<close> (also the class \<^verbatim>\<open>\s\<close> of \<^verbatim>\<open>re\<close>) on the code points below 256.\<close>

definition isspace :: "char \<Rightarrow> bool" where
  "isspace c = (c \<in> {CHR 0x09, CHR 0x0A, CHR 0x0B, CHR 0x0C, CHR 0x0D,
                      CHR 0x1C, CHR 0x1D, CHR 0x1E, CHR 0x1F, CHR 0x20, CHR 0x85, CHR 0xA0})"

text \<open>\<^verbatim>\<open>s.strip()\<close>\<close>

definition strip :: "string \<Rightarrow> string" where
  "strip s = rev (dropWhile isspace (rev (dropWhile isspace s)))"

text \<open>The line boundaries of \<^verbatim>\<open>str.splitlines\<close> below 256; \<^verbatim>\<open>\r\n\<close> is one boundary.\<close>

definition is_linebreak :: "char \<Rightarrow> bool" where
  "is_linebreak c = (c \<in> {CHR 0x0A, CHR 0x0B, CHR 0x0C, CHR 0x0D,
                           CHR 0x1C, CHR 0x1D, CHR 0x1E, CHR 0x85})"

fun splitlines_from :: "string \<Rightarrow> string \<Rightarrow> string list" where
  "splitlines_from cur [] = (if cur = [] then [] else [cur])"
| "splitlines_from cur (c # cs) =
     (if c = CHR 0x0D \<and> cs \<noteq> [] \<and> hd cs = CHR 0x0A then cur # splitlines_from [] (tl cs)
      else if is_linebreak c then cur # splitlines_from [] cs
      else splitlines_from (cur @ [c]) cs)"

definition splitlines :: "string \<Rightarrow> string list" where
  "splitlines s = splitlines_from [] s"

text \<open>\<^verbatim>\<open>sep.join(xs)\<close>\<close>

fun join :: "string \<Rightarrow> string list \<Rightarrow> string" where
  "join sep [] = []"
| "join sep [x] = x"
| "join sep (x # y # ys) = x @ sep @ join sep (y # ys)"

text \<open>\<^verbatim>\<open>s.split(sep)\<close> for a non-empty separator.\<close>

fun split_from :: "string \<Rightarrow> string \<Rightarrow> string \<Rightarrow> string list" where
  "split_from sep cur [] = [cur]"
| "split_from sep cur (c # cs) =
     (if take (length sep) (c # cs) = sep
      then cur # split_from sep [] (drop (length sep - 1) cs)
      else split_from sep (cur @ [c]) cs)"

definition split :: "string \<Rightarrow> string \<Rightarrow> string list" where
  "split s sep = split_from sep [] s"

text \<open>\<^verbatim>\<open>xs[-1] = f(xs[-1])\<close>; every use below is on a list the source has just
  appended to, or has found non-empty.\<close>

definition upd_last :: "('a \<Rightarrow> 'a) \<Rightarrow> 'a list \<Rightarrow> 'a list" where
  "upd_last f xs = (if xs = [] then [] else butlast xs @ [f (last xs)])"

text \<open>\<^verbatim>\<open>s[-1] == c\<close> for a string the source has found non-empty.\<close>

definition ends_with :: "string \<Rightarrow> char \<Rightarrow> bool" where
  "ends_with s c = (s \<noteq> [] \<and> last s = c)"

subsection \<open>Direction detector\<close>

text \<open>One iteration of the loop of \<^verbatim>\<open>isCurly\<close>: the state is
  \<^verbatim>\<open>(count_semicolons, count_colons, count_code_lines)\<close>.\<close>

definition isCurly_step :: "(int \<times> string) list \<Rightarrow> nat \<times> nat \<times> nat \<Rightarrow> nat \<Rightarrow> nat \<times> nat \<times> nat" where
  "isCurly_step code st nL =
     (case st of (count_semicolons, count_colons, count_code_lines) \<Rightarrow>
        let code_line = snd (code ! nL) in
        if code_line \<noteq> [] then
          (if last code_line = CHR '';'' then (count_semicolons + 1, count_colons, count_code_lines + 1)
           else if last code_line = CHR '':'' then (count_semicolons, count_colons + 1, count_code_lines + 1)
           else (count_semicolons, count_colons, count_code_lines + 1))
        else st)"

definition isCurly :: "(int \<times> string) list \<Rightarrow> bool" where
  "isCurly code =
     (let max_lines = min 50000 (length code) in
      case foldl (isCurly_step code) (0, 0, 0) [0 ..< max_lines] of
        (count_semicolons, count_colons, count_code_lines) \<Rightarrow> count_colons < count_semicolons)"

text \<open>The counts the specification speaks of, over a list of code texts.\<close>

definition ends_semicolon :: "string list \<Rightarrow> nat" where
  "ends_semicolon ls = length (filter (\<lambda>l. l \<noteq> [] \<and> last l = CHR '';'') ls)"

definition ends_colon :: "string list \<Rightarrow> nat" where
  "ends_colon ls = length (filter (\<lambda>l. l \<noteq> [] \<and> last l = CHR '':'') ls)"


subsection \<open>Regular expressions of the source\<close>

text \<open>
  Each pattern is used through \<^verbatim>\<open>search\<close> and starts with \<^verbatim>\<open>^\<close>, so it matches at the
  start of the subject only. \<^verbatim>\<open>.\<close> matches every character but the newline, and \<^verbatim>\<open>$\<close>
  matches at the end of the subject or before a newline that ends it.
\<close>

definition end_ok :: "string \<Rightarrow> bool" where
  "end_ok e = (e = [] \<or> e = [CHR 0x0A])"

text \<open>\<^verbatim>\<open>.*$\<close> on the rest of a subject.\<close>

definition dot_star_end :: "string \<Rightarrow> bool" where
  "dot_star_end r = end_ok (dropWhile (\<lambda>c. c \<noteq> CHR 0x0A) r)"

text \<open>The subject without the newline that may end it.\<close>

definition chomp :: "string \<Rightarrow> string" where
  "chomp s = (if s \<noteq> [] \<and> last s = CHR 0x0A then butlast s else s)"

text \<open>\<^verbatim>\<open>^#.*$\<close>\<close>

definition re_macro :: "string \<Rightarrow> bool" where
  "re_macro s = (s \<noteq> [] \<and> hd s = CHR ''#'' \<and> dot_star_end (tl s))"

text \<open>\<^verbatim>\<open>^enum( .*|,.*|)$\<close>\<close>

definition re_enum :: "string \<Rightarrow> bool" where
  "re_enum s =
     (take 4 s = ''enum'' \<and>
      (let r = drop 4 s in
         (r \<noteq> [] \<and> (hd r = CHR '' '' \<or> hd r = CHR '','') \<and> dot_star_end (tl r)) \<or> end_ok r))"

text \<open>\<^verbatim>\<open> *:$\<close> on the rest of a subject.\<close>

definition spaces_colon_end :: "string \<Rightarrow> bool" where
  "spaces_colon_end r =
     (let r1 = dropWhile (\<lambda>c. c = CHR '' '') r in
        r1 \<noteq> [] \<and> hd r1 = CHR '':'' \<and> end_ok (tl r1))"

text \<open>\<^verbatim>\<open>^(public|private|protected)( *):$\<close>\<close>

definition re_access_modifier :: "string \<Rightarrow> bool" where
  "re_access_modifier s =
     ((take 6 s = ''public'' \<and> spaces_colon_end (drop 6 s))
      \<or> (take 7 s = ''private'' \<and> spaces_colon_end (drop 7 s))
      \<or> (take 9 s = ''protected'' \<and> spaces_colon_end (drop 9 s)))"

text \<open>\<^verbatim>\<open>^(case( .*|'.'|)|default *):$\<close>; after \<^verbatim>\<open>case\<close> the three alternatives are a space and
  any text without newline, one quoted character, or nothing, each followed by the final
  colon.\<close>

definition re_switch :: "string \<Rightarrow> bool" where
  "re_switch s =
     ((take 4 s = ''case'' \<and>
        (let r = drop 4 s; t = chomp (drop 5 s) in
           (r \<noteq> [] \<and> hd r = CHR '' '' \<and> t \<noteq> [] \<and> last t = CHR '':'' \<and> CHR 0x0A \<notin> set (butlast t))
           \<or> (length r \<ge> 4 \<and> r ! 0 = CHR 0x27 \<and> r ! 1 \<noteq> CHR 0x0A \<and> r ! 2 = CHR 0x27
               \<and> r ! 3 = CHR '':'' \<and> end_ok (drop 4 r))
           \<or> (r \<noteq> [] \<and> hd r = CHR '':'' \<and> end_ok (tl r))))
      \<or> (take 7 s = ''default'' \<and> spaces_colon_end (drop 7 s)))"

text \<open>The two patterns of \<^verbatim>\<open>nest_curly\<close> allow leading spaces: \<^verbatim>\<open>^( *)(public|...\<close>.\<close>

definition re_access_modifier_raw :: "string \<Rightarrow> bool" where
  "re_access_modifier_raw s = re_access_modifier (dropWhile (\<lambda>c. c = CHR '' '') s)"

definition re_switch_raw :: "string \<Rightarrow> bool" where
  "re_switch_raw s = re_switch (dropWhile (\<lambda>c. c = CHR '' '') s)"

text \<open>The keyword alternation \<^verbatim>\<open>(class|struct|typedef|enum|union)\<close>: the rest of the subject
  after the keyword, if one starts it. No keyword is a prefix of another.\<close>

definition class_keyword :: "string \<Rightarrow> string option" where
  "class_keyword s =
     (if take 5 s = ''class'' then Some (drop 5 s)
      else if take 6 s = ''struct'' then Some (drop 6 s)
      else if take 7 s = ''typedef'' then Some (drop 7 s)
      else if take 4 s = ''enum'' then Some (drop 4 s)
      else if take 5 s = ''union'' then Some (drop 5 s)
      else None)"

text \<open>\<^verbatim>\<open>^(class|struct|typedef|enum|union)( [^;]*|)$\<close>; the class \<^verbatim>\<open>[^;]\<close> matches a newline
  too.\<close>

definition re_class_curly :: "string \<Rightarrow> bool" where
  "re_class_curly s =
     (case class_keyword s of None \<Rightarrow> False
      | Some r \<Rightarrow> (r \<noteq> [] \<and> hd r = CHR '' '' \<and> CHR '';'' \<notin> set (tl r)) \<or> end_ok r)"

text \<open>\<^verbatim>\<open>^(class|struct|typedef|enum|union)( [^;]*|,[^;]*|)$\<close>\<close>

definition re_class_indented :: "string \<Rightarrow> bool" where
  "re_class_indented s =
     (case class_keyword s of None \<Rightarrow> False
      | Some r \<Rightarrow> (r \<noteq> [] \<and> (hd r = CHR '' '' \<or> hd r = CHR '','') \<and> CHR '';'' \<notin> set (tl r))
                  \<or> end_ok r)"

text \<open>\<^verbatim>\<open>while *\(.+\)\<close> on a whole string: the word, spaces, and a parenthesis holding at
  least one character and no newline.\<close>

definition while_head :: "string \<Rightarrow> bool" where
  "while_head w =
     (take 5 w = ''while'' \<and>
      (let r = dropWhile (\<lambda>c. c = CHR '' '') (drop 5 w) in
         3 \<le> length r \<and> hd r = CHR ''('' \<and> last r = CHR '')'' \<and> CHR 0x0A \<notin> set (tl (butlast r))))"

text \<open>\<^verbatim>\<open>^(while *\(.+\))(;)$\<close>: the result is group 1 of a match.\<close>

definition re_while :: "string \<Rightarrow> string option" where
  "re_while s =
     (let t = chomp s in
        if t \<noteq> [] \<and> last t = CHR '';'' \<and> while_head (butlast t) then Some (butlast t) else None)"

text \<open>\<^verbatim>\<open>^(do) (while *\(.+\))$\<close>: the result is group 2 of a match.\<close>

definition re_do_while :: "string \<Rightarrow> string option" where
  "re_do_while s =
     (let t = chomp s in
        if take 3 t = ''do '' \<and> while_head (drop 3 t) then Some (drop 3 t) else None)"

text \<open>The classes \<^verbatim>\<open>[a-zA-Z_]\<close>, \<^verbatim>\<open>[a-zA-Z0-9_]\<close> and \<^verbatim>\<open>[a-zA-Z0-9_ ,]\<close>.\<close>

definition ident_start :: "char \<Rightarrow> bool" where
  "ident_start c = (c \<in> set ''abcdefghijklmnopqrstuvwxyzABCDEFGHIJKLMNOPQRSTUVWXYZ_'')"

definition ident_char :: "char \<Rightarrow> bool" where
  "ident_char c = (ident_start c \<or> c \<in> set ''0123456789'')"

definition alias_char :: "char \<Rightarrow> bool" where
  "alias_char c = (ident_char c \<or> c = CHR '' '' \<or> c = CHR '','')"

text \<open>\<^verbatim>\<open>^([a-zA-Z_]{1}[a-zA-Z0-9_]* *(,[a-zA-Z0-9_ ,]+|);|;)\<close>: a prefix of the subject is an
  identifier, spaces, optionally a comma and a run of alias characters, then \<open>;\<close>; or the
  subject starts with \<open>;\<close>.\<close>

definition alias_re :: "string \<Rightarrow> bool" where
  "alias_re s =
     (s \<noteq> [] \<and>
      (hd s = CHR '';'' \<or>
       (ident_start (hd s) \<and>
        (let r = dropWhile (\<lambda>c. c = CHR '' '') (dropWhile ident_char (tl s)) in
           r \<noteq> [] \<and>
           (hd r = CHR '';'' \<or>
            (hd r = CHR '','' \<and>
             (let q = dropWhile alias_char (tl r) in
                q \<noteq> tl r \<and> q \<noteq> [] \<and> hd q = CHR '';'')))))))"

text \<open>\<^verbatim>\<open>^([\s]*)(.*)\<close>: groups 1 and 2. The match never fails.\<close>

definition re_indent :: "string \<Rightarrow> string \<times> string" where
  "re_indent s = (takeWhile isspace s, takeWhile (\<lambda>c. c \<noteq> CHR 0x0A) (dropWhile isspace s))"

text \<open>\<^verbatim>\<open>^([ \t]*)(([^ \t]{1})|([^ \t]{1}.*[^ \t]{1}))([ \t]*)$\<close> on a subject without newline,
  which is what \<^verbatim>\<open>parse_raw_code\<close> applies it to (its lines come from \<^verbatim>\<open>splitlines\<close>):
  groups 1 and 2 of a match, the leading blanks and the text between them and the
  trailing blanks; no match when nothing but blanks is there.\<close>

definition blank :: "char \<Rightarrow> bool" where
  "blank c = (c = CHR '' '' \<or> c = CHR 0x09)"

definition re_spaces_tabs :: "string \<Rightarrow> (string \<times> string) option" where
  "re_spaces_tabs s =
     (let r = dropWhile blank s in
        if r = [] then None else Some (takeWhile blank s, rev (dropWhile blank (rev r))))"

subsection \<open>Block tree\<close>

text \<open>A node \<^verbatim>\<open>[line_number, code, nested_code]\<close> of the tree format.\<close>

datatype node = Node (line_number: "int option") (code_text: string) (nested_code: "node list")

text \<open>\<^verbatim>\<open>for nT in range(nI*2): data_r = data_r[-1]\<close> followed by \<open>f\<close> on the list reached:
  each level takes the last node of the list (an \<^verbatim>\<open>IndexError\<close> on an empty list) and then
  its children.\<close>

fun modify_at :: "nat \<Rightarrow> (node list \<Rightarrow> error + node list) \<Rightarrow> node list \<Rightarrow> error + node list" where
  "modify_at 0 f ns = f ns"
| "modify_at (Suc n) f ns =
     (if ns = [] then Inl IndexError
      else case modify_at n f (nested_code (last ns)) of
             Inl e \<Rightarrow> Inl e
           | Inr cs \<Rightarrow> Inr (butlast ns @ [Node (line_number (last ns)) (code_text (last ns)) cs]))"

text \<open>The loop of a function that can raise: the first error ends it.\<close>

fun foldl_err :: "('s \<Rightarrow> 'a \<Rightarrow> error + 's) \<Rightarrow> 's \<Rightarrow> 'a list \<Rightarrow> error + 's" where
  "foldl_err f s [] = Inr s"
| "foldl_err f s (x # xs) = (case f s x of Inl e \<Rightarrow> Inl e | Inr s' \<Rightarrow> foldl_err f s' xs)"

subsection \<open>Emitters\<close>

text \<open>\<^verbatim>\<open>indent(code, N)\<close>: entries \<^verbatim>\<open>[line_number, white_space, code]\<close>.\<close>

fun indent :: "node list \<Rightarrow> nat \<Rightarrow> (int option \<times> string \<times> string) list" where
  "indent [] N = []"
| "indent (Node l t cs # rest) N =
     (l, replicate (N * IND_AMT) CHR '' '', t) # indent cs (N + 1) @ indent rest N"

text \<open>\<^verbatim>\<open>curlify(code, N)\<close>; the closing brace has no line number.\<close>

fun curlify :: "node list \<Rightarrow> nat \<Rightarrow> (int option \<times> string \<times> string) list" where
  "curlify [] N = []"
| "curlify (Node l t cs # rest) N =
     (if cs \<noteq> [] then
        (l, replicate (N * IND_AMT) CHR '' '', t @ '' {'') # curlify cs (N + 1)
          @ [(None, replicate (N * IND_AMT) CHR '' '', ''}'')]
      else [(l, replicate (N * IND_AMT) CHR '' '', t)])
     @ curlify rest N"


subsection \<open>Lexical splitter\<close>

text \<open>The variables of \<^verbatim>\<open>parse_raw_code\<close>. \<open>lx_cm1\<close> is the previous character \<^verbatim>\<open>cm1\<close>.\<close>

record lex_state =
  isBlockComment :: bool
  lx_isQuotesOpen :: bool
  isComment :: bool
  lx_cm1 :: char
  out_code :: "(int \<times> string) list"
  bcoms :: "(int \<times> string list) list"
  coms :: "(int \<times> string) list"

text \<open>The body of \<^verbatim>\<open>for c in lines[nL]\<close>. The lists updated at their last element are
  non-empty: \<open>out_code\<close> was extended at the start of the line, \<open>coms\<close> when \<open>isComment\<close>
  was set, \<open>bcoms\<close> when \<open>isBlockComment\<close> was set.\<close>

definition lex_char :: "int \<Rightarrow> lex_state \<Rightarrow> char \<Rightarrow> lex_state" where
  "lex_char nL s c =
     (let cm1 = lx_cm1 s;
          s1 = (if isComment s then s\<lparr>coms := upd_last (\<lambda>(n, t). (n, t @ [c])) (coms s)\<rparr>
                else if isBlockComment s then
                  s\<lparr>bcoms := upd_last (\<lambda>(n, ls). (n, upd_last (\<lambda>l. l @ [c]) ls)) (bcoms s)\<rparr>
                else s\<lparr>out_code := upd_last (\<lambda>(n, t). (n, t @ [c])) (out_code s)\<rparr>);
          isEscaped = (cm1 = CHR 0x5C);
          s2 = (if c = CHR 0x22 \<and> \<not> (isComment s1 \<or> isBlockComment s1 \<or> isEscaped)
                then s1\<lparr>lx_isQuotesOpen := \<not> lx_isQuotesOpen s1\<rparr> else s1);
          s3 = (if cm1 = CHR ''/'' \<and> c = CHR ''/''
                   \<and> \<not> (lx_isQuotesOpen s2 \<or> isComment s2 \<or> isBlockComment s2)
                then s2\<lparr>isComment := True,
                        out_code := upd_last (\<lambda>(n, t). (n, take (length t - 2) t)) (out_code s2),
                        coms := coms s2 @ [(nL, [cm1, c])]\<rparr>
                else s2);
          s4 = (if cm1 = CHR ''/'' \<and> c = CHR ''*''
                   \<and> \<not> (lx_isQuotesOpen s3 \<or> isComment s3 \<or> isBlockComment s3)
                then s3\<lparr>isBlockComment := True,
                        out_code := upd_last (\<lambda>(n, t). (n, take (length t - 2) t)) (out_code s3),
                        bcoms := (if bcoms s3 = [] \<or> fst (last (bcoms s3)) \<noteq> nL
                                  then bcoms s3 @ [(nL, [[cm1, c]])]
                                  else upd_last (\<lambda>(n, ls). (n, upd_last (\<lambda>l. l @ [cm1, c]) ls))
                                         (bcoms s3))\<rparr>
                else s3);
          s5 = (if cm1 = CHR ''*'' \<and> c = CHR ''/'' \<and> \<not> (lx_isQuotesOpen s4 \<or> isComment s4)
                then s4\<lparr>isBlockComment := False\<rparr> else s4)
      in s5\<lparr>lx_cm1 := c\<rparr>)"

text \<open>The body of \<^verbatim>\<open>for nL in range(len(lines))\<close>.\<close>

definition lex_line :: "lex_state \<Rightarrow> int \<times> string \<Rightarrow> lex_state" where
  "lex_line s nl =
     (case nl of (nL, raw) \<Rightarrow>
        if strip raw = [] then s
        else
          let s0 = s\<lparr>isComment := False\<rparr>;
              s1 = (if out_code s0 = [] \<or> snd (last (out_code s0)) \<noteq> []
                    then s0\<lparr>out_code := out_code s0 @ [(nL, [])]\<rparr>
                    else s0\<lparr>out_code := upd_last (\<lambda>(n, t). (nL, t)) (out_code s0)\<rparr>);
              s2 = (if isBlockComment s1
                    then s1\<lparr>bcoms := upd_last (\<lambda>(n, ls). (n, ls @ [[]])) (bcoms s1)\<rparr> else s1)
          in foldl (lex_char nL) (s2\<lparr>lx_cm1 := CHR 0x0A\<rparr>) raw)"

definition lex_init :: lex_state where
  "lex_init = \<lparr>isBlockComment = False, lx_isQuotesOpen = False, isComment = False,
               lx_cm1 = CHR 0x0A, out_code = [], bcoms = [], coms = []\<rparr>"

text \<open>The second loop of \<^verbatim>\<open>parse_raw_code\<close>: trailing blanks removed, leading tabs replaced, a
  line of blanks dropped.\<close>

definition tabs_to_spaces :: "string \<Rightarrow> string" where
  "tabs_to_spaces w = concat (map (\<lambda>c. if c = CHR 0x09 then replicate IND_AMT CHR '' '' else [c]) w)"

definition out_code2 :: "(int \<times> string) list \<Rightarrow> (int \<times> string) list" where
  "out_code2 oc =
     concat (map (\<lambda>(n, t). case re_spaces_tabs t of None \<Rightarrow> []
                            | Some (g1, g2) \<Rightarrow> [(n, tabs_to_spaces g1 @ g2)]) oc)"

definition parse_raw_code ::
  "string list \<Rightarrow> (int \<times> string) list \<times> (int \<times> string list) list \<times> (int \<times> string) list" where
  "parse_raw_code lines =
     (let s = foldl lex_line lex_init (zip (map int [0 ..< length lines]) lines)
      in (out_code2 (out_code s), bcoms s, coms s))"

subsection \<open>Indent parser\<close>

text \<open>The body of the loop of \<^verbatim>\<open>nest_indented\<close>; the state is \<^verbatim>\<open>(data, line_cont, nIp)\<close>.
  \<^verbatim>\<open>white_space[:-nIp*IND_AMT]\<close> is empty when \<open>nIp = 0\<close>. Taking the last character of an
  empty \<^verbatim>\<open>char_space\<close> raises.\<close>

definition nest_indented_line ::
  "node list \<times> bool \<times> nat \<Rightarrow> int \<times> string \<Rightarrow> error + node list \<times> bool \<times> nat" where
  "nest_indented_line st entry =
     (case st of (data, line_cont, nIp) \<Rightarrow> case entry of (line_num, l) \<Rightarrow>
        let white_space = fst (re_indent l);
            leading_white_space =
              (if nIp = 0 then [] else take (length white_space - nIp * IND_AMT) white_space);
            char_space = (if line_cont then leading_white_space @ snd (re_indent l)
                          else snd (re_indent l));
            nI = (if line_cont then nIp else length white_space div IND_AMT)
        in case modify_at nI
                  (\<lambda>data_r.
                     if line_cont then
                       (if data_r = [] then Inl IndexError
                        else Inr (butlast data_r @
                               [Node (line_number (last data_r))
                                  (butlast (code_text (last data_r)) @ char_space)
                                  (nested_code (last data_r))]))
                     else Inr (data_r @ [Node (Some line_num) char_space []]))
                  data of
             Inl e \<Rightarrow> Inl e
           | Inr data' \<Rightarrow>
               if char_space = [] then Inl IndexError
               else Inr (data', last char_space = CHR 0x5C, nI))"

definition nest_indented :: "(int \<times> string) list \<Rightarrow> error + node list" where
  "nest_indented code =
     (case foldl_err nest_indented_line ([], False, 0) code of
        Inl e \<Rightarrow> Inl e | Inr (data, line_cont, nIp) \<Rightarrow> Inr data)"

subsection \<open>Brace parser\<close>

text \<open>\<^verbatim>\<open>_update_data\<close>: the new node goes to the end of the list \<open>nI\<close> levels down the last
  branch; \<^verbatim>\<open>range(nI*2)\<close> is empty for a negative \<open>nI\<close>.\<close>

definition update_data :: "int \<Rightarrow> int \<Rightarrow> string \<Rightarrow> node list \<Rightarrow> error + node list" where
  "update_data num_line nI code_buf data =
     modify_at (nat nI) (\<lambda>data_r. Inr (data_r @ [Node (Some num_line) (strip code_buf) []])) data"

text \<open>The variables of \<^verbatim>\<open>nest_curly\<close>; \<open>cur\<close> and \<open>cm1\<close> are the one-character strings \<^verbatim>\<open>c\<close>
  and \<^verbatim>\<open>cm1\<close>, empty before the first character.\<close>

record nc_state =
  cur :: string
  cm1 :: string
  nI :: int
  code_buf :: string
  data :: "node list"
  isParenOpen :: bool
  isQuotesOpen :: bool
  num_line :: int

text \<open>The look-ahead for the character after a colon. The inner loop runs over the columns
  after the colon, bounded by the length of the current line, but reads them in line
  \<open>nLp1\<close>; a read beyond that line's end raises, which the source catches.\<close>

datatype scan = Break | Exhausted | Raised

fun cp1_inner :: "string \<Rightarrow> nat \<Rightarrow> nat list \<Rightarrow> char \<Rightarrow> char \<times> scan" where
  "cp1_inner l len [] cp1 = (cp1, Exhausted)"
| "cp1_inner l len (nCp1 # cols) cp1 =
     (if length l \<le> nCp1 then (cp1, Raised)
      else if \<not> (nCp1 = len - 1 \<and> l ! nCp1 \<noteq> CHR 0x5C) then (l ! nCp1, Break)
      else cp1_inner l len cols (l ! nCp1))"

fun cp1_outer :: "string list \<Rightarrow> nat \<Rightarrow> nat list \<Rightarrow> char \<Rightarrow> char" where
  "cp1_outer [] len cols cp1 = cp1"
| "cp1_outer (l # ls) len cols cp1 =
     (case cp1_inner l len cols cp1 of
        (x, Exhausted) \<Rightarrow> cp1_outer ls len cols x
      | (x, Break) \<Rightarrow> x
      | (x, Raised) \<Rightarrow> x)"

text \<open>The line number a flush uses: \<^verbatim>\<open>if nC == 0 and num_line: num_line = num_line - 1\<close>.\<close>

definition flush_line :: "nat \<Rightarrow> int \<Rightarrow> int" where
  "flush_line nC n = (if nC = 0 \<and> n \<noteq> 0 then n - 1 else n)"

text \<open>The body of \<^verbatim>\<open>for nC in range(len(codeLine))\<close>.\<close>

definition nc_char ::
  "(int \<times> string) list \<Rightarrow> nat \<Rightarrow> string \<Rightarrow> nc_state \<Rightarrow> nat \<Rightarrow> error + nc_state" where
  "nc_char code nL codeLine s nC =
     (if codeLine ! nC = CHR 0x5C \<and> nC = length codeLine - 1 then Inr s
      else
        let c = codeLine ! nC;
            isEscaped = (cur s = [CHR 0x5C] \<and> nC \<noteq> 0);
            s1 = s\<lparr>cm1 := cur s, cur := [c],
                   isQuotesOpen := (if c = CHR 0x22 \<and> \<not> isEscaped then \<not> isQuotesOpen s
                                    else isQuotesOpen s)\<rparr>
        in if \<not> isQuotesOpen s1 \<and> c = CHR '' '' \<and> cm1 s1 = '' '' then Inr s1
           else if \<not> isQuotesOpen s1 \<and> (c = CHR ''{'' \<or> c = CHR ''}'') then
             (let n = (if c = CHR ''{'' then flush_line nC (num_line s1) else num_line s1)
              in case update_data n (nI s1) (code_buf s1) (data s1) of
                   Inl e \<Rightarrow> Inl e
                 | Inr d \<Rightarrow> Inr (s1\<lparr>num_line := n, code_buf := [], data := d,
                                   nI := (if c = CHR ''{'' then nI s1 + 1 else nI s1 - 1)\<rparr>))
           else
             let s2 = (if \<not> isQuotesOpen s1 \<and> c = CHR ''('' then s1\<lparr>isParenOpen := True\<rparr>
                       else if \<not> isQuotesOpen s1 \<and> c = CHR '')'' then s1\<lparr>isParenOpen := False\<rparr>
                       else s1);
                 s3 = s2\<lparr>code_buf := code_buf s2 @ [c]\<rparr>;
                 append_data =
                   (\<not> isQuotesOpen s3 \<and>
                    (if c = CHR '';'' \<and> \<not> isParenOpen s3 then True
                     else if c = CHR '':''
                             \<and> (re_access_modifier_raw (code_buf s3) \<or> re_switch_raw (code_buf s3))
                     then (let cp1 = cp1_outer (map snd (drop nL code)) (length codeLine)
                                       [nC + 1 ..< length codeLine] CHR '' ''
                           in \<not> (cm1 s3 = '':'' \<or> cp1 = CHR '':''))
                     else False))
             in if append_data then
                  (let n = flush_line nC (num_line s3)
                   in case update_data n (nI s3) (code_buf s3) (data s3) of
                        Inl e \<Rightarrow> Inl e
                      | Inr d \<Rightarrow> Inr (s3\<lparr>num_line := n, code_buf := [], data := d\<rparr>))
                else Inr s3)"

text \<open>The body of \<^verbatim>\<open>for nL in range(len(code))\<close>, with the macro pass-through.\<close>

definition nc_line :: "(int \<times> string) list \<Rightarrow> nc_state \<Rightarrow> nat \<Rightarrow> error + nc_state" where
  "nc_line code s nL =
     (let n = fst (code ! nL); codeLine = snd (code ! nL) in
        if codeLine = [] then Inr s
        else if hd codeLine = CHR ''#'' then
          (case (if strip (code_buf s) \<noteq> []
                 then update_data (n - 1) (nI s) (code_buf s) (data s) else Inr (data s)) of
             Inl e \<Rightarrow> Inl e
           | Inr d \<Rightarrow>
               (case update_data n (nI s) codeLine d of
                  Inl e \<Rightarrow> Inl e
                | Inr d' \<Rightarrow> Inr (s\<lparr>num_line := n, code_buf := [], data := d'\<rparr>)))
        else foldl_err (nc_char code nL codeLine) (s\<lparr>num_line := n\<rparr>) [0 ..< length codeLine])"

definition nc_init :: nc_state where
  "nc_init = \<lparr>cur = [], cm1 = [], nI = 0, code_buf = [], data = [],
              isParenOpen = False, isQuotesOpen = False, num_line = 0\<rparr>"

definition nest_curly :: "(int \<times> string) list \<Rightarrow> error + node list" where
  "nest_curly code =
     (case foldl_err (nc_line code) nc_init [0 ..< length code] of
        Inl e \<Rightarrow> Inl e | Inr s \<Rightarrow> Inr (data s))"


subsection \<open>Restructurers\<close>

text \<open>\<^verbatim>\<open>_pattern_match\<close> of \<^verbatim>\<open>add_special_indent\<close> and \<^verbatim>\<open>rem_special_indent\<close>.\<close>

definition pattern_match :: "string \<Rightarrow> bool" where
  "pattern_match s = (re_access_modifier s \<or> re_switch s)"

fun add_colon :: "node list \<Rightarrow> node list" where
  "add_colon [] = []"
| "add_colon (Node l t cs # rest) =
     (if cs \<noteq> [] then
        (if t \<noteq> [] then
           (if \<not> (re_access_modifier t \<or> re_switch t) then Node l (t @ '':'') (add_colon cs)
            else Node l t (add_colon cs))
         else Node None (t @ '':'') (add_colon cs))
      else Node l t (add_colon cs))
     # add_colon rest"

fun rem_special_indent :: "node list \<Rightarrow> node list" where
  "rem_special_indent [] = []"
| "rem_special_indent (Node l t cs # rest) =
     (if cs \<noteq> [] \<and> pattern_match t then Node l t [] # rem_special_indent cs
      else [Node l t (rem_special_indent cs)])
     @ rem_special_indent rest"

text \<open>\<^verbatim>\<open>add_special_indent\<close>, with the loop's \<^verbatim>\<open>isIndented\<close> and \<^verbatim>\<open>out_code\<close> as arguments.
  \<^verbatim>\<open>out_code[-1][-1].append(x)\<close> is reached only after a keyword node has been appended.\<close>

fun add_special_indent_loop :: "bool \<Rightarrow> node list \<Rightarrow> node list \<Rightarrow> node list" where
  "add_special_indent_loop isIndented out [] = out"
| "add_special_indent_loop isIndented out (Node l t cs # rest) =
     (if pattern_match t then
        add_special_indent_loop True (out @ [Node l t (add_special_indent_loop False [] cs)]) rest
      else if isIndented then
        add_special_indent_loop isIndented
          (upd_last (\<lambda>p. Node (line_number p) (code_text p)
                            (nested_code p @ [Node l t (add_special_indent_loop False [] cs)])) out)
          rest
      else
        add_special_indent_loop isIndented (out @ [Node l t (add_special_indent_loop False [] cs)]) rest)"

definition add_special_indent :: "node list \<Rightarrow> node list" where
  "add_special_indent code = add_special_indent_loop False [] code"

fun add_semicolon :: "node list \<Rightarrow> node list" where
  "add_semicolon [] = []"
| "add_semicolon (Node l t cs # rest) =
     (if cs \<noteq> [] then
        (if \<not> re_enum t then Node l t (add_semicolon cs) else Node l t cs)
      else if t \<noteq> [] then
        (if \<not> re_macro t then Node l (t @ '';'') cs else Node l t cs)
      else Node l t cs)
     # add_semicolon rest"

text \<open>\<^verbatim>\<open>rem_colon\<close>. Where the source puts the placeholder \<^verbatim>\<open>[[None, "", []]]\<close> and then
  recurses into it, the recursion returns the placeholder as it is (its text is empty and
  it has no children), so the model puts it directly.\<close>

fun rem_colon :: "node list \<Rightarrow> node list" where
  "rem_colon [] = []"
| "rem_colon (Node l t cs # rest) =
     (if t \<noteq> [] \<and> \<not> (re_access_modifier t \<or> re_switch t \<or> hd t = CHR ''#'')
         \<and> last t = CHR '':''
      then (if cs = [] then Node l (butlast t) [Node None [] []]
            else Node l (butlast t) (rem_colon cs))
      else Node l t (rem_colon cs))
     # rem_colon rest"

fun rem_semicolon :: "node list \<Rightarrow> node list" where
  "rem_semicolon [] = []"
| "rem_semicolon (Node l t cs # rest) =
     (if t \<noteq> [] \<and> last t = CHR '';'' \<and> cs = [] then Node l (butlast t) (rem_semicolon cs)
      else Node l t (rem_semicolon cs))
     # rem_semicolon rest"

text \<open>The line-renumber map \<^verbatim>\<open>mv\<close>: a dictionary from line numbers to line numbers, where
  both may be \<^verbatim>\<open>None\<close>. \<^verbatim>\<open>{**a, **b}\<close> is \<open>a ++ b\<close>.\<close>

type_synonym mv = "int option \<rightharpoonup> int option"

text \<open>\<^verbatim>\<open>_f\<close> of \<^verbatim>\<open>to_indented_aliases\<close> on the texts of the node and of its follower: the new
  text and \<^verbatim>\<open>_skipNext\<close>.\<close>

definition indented_aliases_f :: "string \<Rightarrow> string \<Rightarrow> string \<times> bool" where
  "indented_aliases_f t0 t1 =
     (if re_class_curly t0 then
        (let child_parrents = split t0 '':'';
             parrents = (if length child_parrents = 2 then '': '' @ strip (child_parrents ! 1)
                         else []);
             child = hd child_parrents;
             aliases = (if butlast t1 \<noteq> [] then '', '' @ butlast t1 else [])
         in (child @ aliases @ parrents, True))
      else (t0, False))"

text \<open>\<^verbatim>\<open>to_indented_aliases\<close>. The last node has no follower: \<^verbatim>\<open>code[nL+1]\<close> raises, which the
  source catches, and the node is kept. After a join the follower is skipped.\<close>

fun to_indented_aliases :: "node list \<Rightarrow> node list \<times> mv" where
  "to_indented_aliases [] = ([], Map.empty)"
| "to_indented_aliases [Node l t cs] =
     (case to_indented_aliases cs of (nested, nested_mv) \<Rightarrow>
        ([Node l t nested], nested_mv))"
| "to_indented_aliases (Node l t cs # Node l1 t1 cs1 # rest) =
     (case to_indented_aliases cs of (nested, nested_mv) \<Rightarrow>
        if snd (indented_aliases_f t t1) then
          (case to_indented_aliases rest of (out_rest, mv_rest) \<Rightarrow>
             (Node l (fst (indented_aliases_f t t1)) nested # out_rest,
              ([l1 \<mapsto> l] ++ nested_mv) ++ mv_rest))
        else
          (case to_indented_aliases (Node l1 t1 cs1 # rest) of (out_rest, mv_rest) \<Rightarrow>
             (Node l t nested # out_rest, nested_mv ++ mv_rest)))"

definition indented_do_while_f :: "string \<Rightarrow> string \<Rightarrow> string \<times> bool" where
  "indented_do_while_f t0 t1 =
     (case re_while t1 of
        Some g1 \<Rightarrow> if t0 = ''do'' then (t0 @ '' '' @ g1, True) else (t0, False)
      | None \<Rightarrow> (t0, False))"

fun to_indented_do_while :: "node list \<Rightarrow> node list \<times> mv" where
  "to_indented_do_while [] = ([], Map.empty)"
| "to_indented_do_while [Node l t cs] =
     (case to_indented_do_while cs of (nested, nested_mv) \<Rightarrow>
        ([Node l t nested], nested_mv))"
| "to_indented_do_while (Node l t cs # Node l1 t1 cs1 # rest) =
     (case to_indented_do_while cs of (nested, nested_mv) \<Rightarrow>
        if snd (indented_do_while_f t t1) then
          (case to_indented_do_while rest of (out_rest, mv_rest) \<Rightarrow>
             (Node l (fst (indented_do_while_f t t1)) nested # out_rest,
              ([l1 \<mapsto> l] ++ nested_mv) ++ mv_rest))
        else
          (case to_indented_do_while (Node l1 t1 cs1 # rest) of (out_rest, mv_rest) \<Rightarrow>
             (Node l t nested # out_rest, nested_mv ++ mv_rest)))"

text \<open>\<^verbatim>\<open>_f\<close> of \<^verbatim>\<open>to_curly_aliases\<close>: \<^verbatim>\<open>child_parrents\<close> and \<^verbatim>\<open>aliases\<close>.\<close>

definition curly_aliases_f :: "string \<Rightarrow> string \<times> string" where
  "curly_aliases_f t =
     (if re_class_indented t then
        (let child_aliases_parrents = split t '':'';
             child_aliases = split (hd child_aliases_parrents) '', '';
             child_parrents =
               (if length child_aliases_parrents = 2
                then hd child_aliases @ '': '' @ strip (child_aliases_parrents ! 1)
                else hd child_aliases);
             aliases = (if 2 \<le> length child_aliases
                        then join '', '' (map strip (tl child_aliases)) @ '';'' else '';'')
         in (child_parrents, aliases))
      else (t, []))"

fun to_curly_aliases :: "node list \<Rightarrow> node list \<times> mv" where
  "to_curly_aliases [] = ([], Map.empty)"
| "to_curly_aliases (Node l t cs # rest) =
     (case to_curly_aliases cs of (nested, ch) \<Rightarrow>
      case to_curly_aliases rest of (out_rest, mv_rest) \<Rightarrow>
        if snd (curly_aliases_f t) \<noteq> [] then
          (Node l (fst (curly_aliases_f t)) nested # Node l (snd (curly_aliases_f t)) [] # out_rest,
           (ch ++ [l \<mapsto> None]) ++ mv_rest)
        else (Node l (fst (curly_aliases_f t)) nested # out_rest, ch ++ mv_rest))"

definition curly_do_while_f :: "string \<Rightarrow> string \<times> string" where
  "curly_do_while_f t =
     (case re_do_while t of Some g2 \<Rightarrow> (''do'', g2 @ '';'') | None \<Rightarrow> (t, []))"

fun to_curly_do_while :: "node list \<Rightarrow> node list \<times> mv" where
  "to_curly_do_while [] = ([], Map.empty)"
| "to_curly_do_while (Node l t cs # rest) =
     (case to_curly_do_while cs of (nested, ch) \<Rightarrow>
      case to_curly_do_while rest of (out_rest, mv_rest) \<Rightarrow>
        if snd (curly_do_while_f t) \<noteq> [] then
          (Node l (fst (curly_do_while_f t)) nested # Node l (snd (curly_do_while_f t)) [] # out_rest,
           (ch ++ [l \<mapsto> None]) ++ mv_rest)
        else (Node l (fst (curly_do_while_f t)) nested # out_rest, ch ++ mv_rest))"


subsection \<open>Comment merger\<close>

text \<open>A Python dictionary as an association list without duplicate keys: \<^verbatim>\<open>d[k] = v\<close> is
  \<open>dict_set k v d\<close>, \<^verbatim>\<open>d[k]\<close> is \<open>map_of d k\<close> (\<open>None\<close> for a \<^verbatim>\<open>KeyError\<close>).\<close>

fun dict_set :: "'k \<Rightarrow> 'v \<Rightarrow> ('k \<times> 'v) list \<Rightarrow> ('k \<times> 'v) list" where
  "dict_set k v [] = [(k, v)]"
| "dict_set k v ((k', v') # d) = (if k' = k then (k', v) # d else (k', v') # dict_set k v d)"

text \<open>The keys of the dictionaries of \<^verbatim>\<open>merge_comments\<close> are the integers and the sums
  \<^verbatim>\<open>key + 1/1024\<close>, which binary floating point holds exactly (for line numbers below
  \<open>2 ^ 42\<close>); they are modelled as rationals.\<close>

fun code_d_loop ::
  "(int option \<times> string \<times> string) list \<Rightarrow> rat \<Rightarrow> (rat \<times> string \<times> string) list
     \<Rightarrow> (rat \<times> string \<times> string) list" where
  "code_d_loop [] key code_d = code_d"
| "code_d_loop ((l0, l1, l2) # ls) key code_d =
     (let last_key = key;
          key' = (case l0 of
                    None \<Rightarrow> last_key + 1 / 1024
                  | Some k \<Rightarrow> if map_of code_d (of_int k) \<noteq> None then last_key + 1 / 1024
                              else of_int k)
      in code_d_loop ls key' (dict_set key' (l1, l2) code_d))"

text \<open>The key a comment of line \<open>l0\<close> is stored under: \<^verbatim>\<open>ch[l0]\<close> when that is there and
  true (neither \<^verbatim>\<open>None\<close> nor \<open>0\<close>), else \<open>l0\<close>.\<close>

definition comment_key :: "mv \<Rightarrow> int \<Rightarrow> rat" where
  "comment_key ch l0 =
     (case ch (Some l0) of
        Some (Some v) \<Rightarrow> if v \<noteq> 0 then of_int v else of_int l0
      | Some None \<Rightarrow> of_int l0
      | None \<Rightarrow> of_int l0)"

definition comment_d :: "mv \<Rightarrow> (int \<times> 'a) list \<Rightarrow> (rat \<times> 'a) list" where
  "comment_d ch cs = foldl (\<lambda>d l. dict_set (comment_key ch (fst l)) (snd l) d) [] cs"

text \<open>An entry \<^verbatim>\<open>[white_space, code, block_comment, line_comment]\<close>; the third field is
  \<open>None\<close> for the empty string the source starts with, else the rolled-up block comment.\<close>

type_synonym merged = "string \<times> string \<times> string list option \<times> string"

definition merge_entry ::
  "(rat \<times> string \<times> string) list \<Rightarrow> (rat \<times> string list) list \<Rightarrow> (rat \<times> string) list
     \<Rightarrow> rat \<Rightarrow> merged list" where
  "merge_entry code_d bcom_d com_d N =
     (let s0 = (case map_of code_d N of Some (w, c) \<Rightarrow> w | None \<Rightarrow> []);
          s1 = (case map_of code_d N of Some (w, c) \<Rightarrow> c | None \<Rightarrow> []);
          s2 = map_of bcom_d N;
          s3 = (case map_of com_d N of Some t \<Rightarrow> t | None \<Rightarrow> [])
      in if s0 = [] \<and> s1 = [] \<and> s2 = None \<and> s3 = [] then [] else [(s0, s1, s2, s3)])"

text \<open>The last loop of \<^verbatim>\<open>merge_comments\<close>, from the bottom: an entry without code takes the
  white space of the next entry with code below it. The result pairs the list with
  \<^verbatim>\<open>spaces\<close>.\<close>

fun propagate_spaces :: "merged list \<Rightarrow> merged list \<times> string" where
  "propagate_spaces [] = ([], [])"
| "propagate_spaces ((w, c, b, l) # rest) =
     (case propagate_spaces rest of (rest', spaces) \<Rightarrow>
        if c = [] then ((spaces, c, b, l) # rest', spaces) else ((w, c, b, l) # rest', w))"

definition merge_comments ::
  "(int option \<times> string \<times> string) list \<Rightarrow> (int \<times> string list) list \<Rightarrow> (int \<times> string) list
     \<Rightarrow> mv \<Rightarrow> merged list" where
  "merge_comments code bcs cms ch =
     (let code_d = code_d_loop code (- 1) [];
          bcom_d = comment_d ch bcs;
          com_d = comment_d ch cms;
          all_keys = sort (remdups (map fst code_d @ map fst bcom_d @ map fst com_d))
      in fst (propagate_spaces (concat (map (merge_entry code_d bcom_d com_d) all_keys))))"

subsection \<open>Cosmetic layer\<close>

text \<open>An entry \<^verbatim>\<open>[white_space, code, block_comment_line, line_comment]\<close>.\<close>

type_synonym entry = "string \<times> string \<times> string \<times> string"

fun block_comments_expand :: "merged list \<Rightarrow> entry list" where
  "block_comments_expand [] = []"
| "block_comments_expand ((w, c, b, l) # rest) =
     (case b of
        None \<Rightarrow> [(w, c, [], l)]
      | Some [] \<Rightarrow> [(w, c, [], l)]
      | Some (b0 # bs) \<Rightarrow> (w, c, b0, l) # map (\<lambda>x. (w, [], x, [])) bs)
     @ block_comments_expand rest"

text \<open>\<^verbatim>\<open>sum(map(bool, map(str.strip, code0[n])))\<close> as a truth value.\<close>

definition not_blank :: "entry \<Rightarrow> bool" where
  "not_blank e =
     (case e of (w, c, b, l) \<Rightarrow> \<not> (strip w = [] \<and> strip c = [] \<and> strip b = [] \<and> strip l = []))"

text \<open>The body of the loop that drags aliases behind the closing brace; the state is
  \<^verbatim>\<open>code\<close> and \<^verbatim>\<open>prev_char\<close>, which is \<open>None\<close> while the source has not assigned it.\<close>

definition drag_step ::
  "entry list \<times> string option \<Rightarrow> entry \<Rightarrow> error + entry list \<times> string option" where
  "drag_step st e =
     (case st of (code, prev_char) \<Rightarrow> case e of (w, c, b, l) \<Rightarrow>
        if alias_re c then
          (case prev_char of
             None \<Rightarrow> Inl UnboundLocalError
           | Some p \<Rightarrow>
               if p = ''}'' then
                 (if code = [] then Inl IndexError
                  else Inr (upd_last (\<lambda>(w0, c0, b0, l0).
                                        (w0, c0 @ (if 1 < length c then '' '' else []) @ c,
                                         b0 @ b, l0 @ l)) code,
                            Some [last ('' '' @ c)]))
               else Inr (code @ [e], Some [last ('' '' @ c)]))
        else Inr (code @ [e], Some [last ('' '' @ c)]))"

definition drag_aliases :: "entry list \<Rightarrow> error + entry list \<times> string option" where
  "drag_aliases code1 = foldl_err drag_step ([], None) code1"

datatype label = Macro | Close_brace | Code | Comment

definition label_of :: "entry \<Rightarrow> label option" where
  "label_of e =
     (case e of (w, c, b, l) \<Rightarrow>
        if c \<noteq> [] then
          (if hd c = CHR ''#'' then Some Macro
           else if hd c = CHR ''}'' then Some Close_brace
           else Some Code)
        else if \<not> (b = [] \<and> l = []) then Some Comment
        else None)"

text \<open>The body of the loop that looks two lines ahead: whether a blank line follows entry
  \<open>n\<close>. \<open>i1\<close> and \<open>i2\<close> are \<open>None\<close> past the end of the list.\<close>

definition insert_line :: "entry list \<Rightarrow> nat \<Rightarrow> bool" where
  "insert_line code n =
     (let depth = map (\<lambda>e. length (fst e)) code;
          label = map label_of code;
          i0 = depth ! n;
          l0 = label ! n;
          i1 = (if n + 1 < length code then Some (depth ! (n + 1)) else None);
          l1 = (if n + 1 < length code then label ! (n + 1) else None);
          i2 = (if n + 2 < length code then Some (depth ! (n + 2)) else None);
          first =
            (if i1 = Some 0 then
               (if (l0 = Some Code \<and> l1 = Some Comment)
                   \<or> (l0 = Some Close_brace \<and> l1 = Some Comment)
                   \<or> (l0 = Some Close_brace \<and> l1 = Some Code)
                   \<or> (l0 = Some Macro \<and> l1 = Some Comment)
                   \<or> (l0 = Some Macro \<and> l1 = Some Code)
                   \<or> (l0 = Some Comment \<and> l1 = Some Macro)
                   \<or> (l0 = Some Comment \<and> l1 = Some Code)
                   \<or> (l0 = Some Code \<and> l1 = Some Macro)
                then True
                else if (l0 = Some Code \<or> l0 = Some Close_brace) \<and> l1 = Some Code then
                  (if 0 < i0 then True
                   else (case i2 of None \<Rightarrow> False | Some d \<Rightarrow> 0 < d))
                else False)
             else False)
      in if i1 = None \<and> i2 = None then True else first)"

definition cosmetic_lines :: "entry list \<Rightarrow> error + entry list" where
  "cosmetic_lines code0 =
     (case drag_aliases (filter not_blank code0) of
        Inl e \<Rightarrow> Inl e
      | Inr (code, prev_char) \<Rightarrow>
          Inr (concat (map (\<lambda>n. if insert_line code n then [code ! n, ([], [], [], [])]
                                 else [code ! n])
                         [0 ..< length code])))"

subsection \<open>Entry point\<close>

definition code_join_entry :: "entry \<Rightarrow> string" where
  "code_join_entry e =
     (case e of (w, c, b, l) \<Rightarrow>
        w @ c @ (if c \<noteq> [] \<and> \<not> (b = [] \<and> l = []) then '' '' else [])
          @ b @ (if b \<noteq> [] \<and> l \<noteq> [] then '' '' else []) @ l)"

definition code_join :: "entry list \<Rightarrow> string" where
  "code_join code = join [CHR 0x0A] (map code_join_entry code)"

text \<open>The two pipelines of \<^verbatim>\<open>convert\<close>, up to the emitted lines and the renumber map.\<close>

definition to_indented ::
  "(int \<times> string) list \<Rightarrow> error + (int option \<times> string \<times> string) list \<times> mv" where
  "to_indented code =
     (case nest_curly code of
        Inl e \<Rightarrow> Inl e
      | Inr c2 \<Rightarrow>
          (case to_indented_aliases c2 of (c3, mv1) \<Rightarrow>
           case to_indented_do_while c3 of (c4, mv2) \<Rightarrow>
             Inr (indent (add_colon (rem_semicolon (add_special_indent c4))) 0, mv1 ++ mv2)))"

definition to_curly ::
  "(int \<times> string) list \<Rightarrow> error + (int option \<times> string \<times> string) list \<times> mv" where
  "to_curly code =
     (case nest_indented code of
        Inl e \<Rightarrow> Inl e
      | Inr c2 \<Rightarrow>
          (case to_curly_do_while (rem_special_indent (add_semicolon (rem_colon c2))) of
             (c6, mv2) \<Rightarrow>
           case to_curly_aliases c6 of (c7, mv1) \<Rightarrow>
             Inr (curlify c7 0, mv1 ++ mv2)))"

text \<open>\<^verbatim>\<open>convert(raw_code, make_indented)\<close>; \<open>None\<close> asks for the detection of the form.\<close>

definition convert :: "string \<Rightarrow> bool option \<Rightarrow> error + string" where
  "convert raw_code make_indented =
     (case parse_raw_code (splitlines raw_code) of (code, bcs, cms) \<Rightarrow>
        case (if (case make_indented of None \<Rightarrow> isCurly code | Some b \<Rightarrow> b)
              then to_indented code else to_curly code) of
          Inl e \<Rightarrow> Inl e
        | Inr (c8, mv) \<Rightarrow>
            (case cosmetic_lines (block_comments_expand (merge_comments c8 bcs cms mv)) of
               Inl e \<Rightarrow> Inl e
             | Inr c11 \<Rightarrow> Inr (code_join c11)))"

subsection \<open>Observers used in the statements\<close>

text \<open>The last node of the list \<open>n\<close> levels down the last branch of a tree: where
  \<^verbatim>\<open>_update_data\<close> at depth \<open>n\<close> has just put its node.\<close>

fun last_at :: "nat \<Rightarrow> node list \<Rightarrow> node option" where
  "last_at 0 ns = (if ns = [] then None else Some (last ns))"
| "last_at (Suc n) ns = (if ns = [] then None else last_at n (nested_code (last ns)))"

text \<open>What \<^verbatim>\<open>add_semicolon\<close> makes of one node \<open>n\<close>: a leaf with text that is not a macro
  line gets a \<open>;\<close>, the children of an \<^verbatim>\<open>enum\<close> node stay as they are, the children of
  another node are treated in turn.\<close>

definition semicolon_node :: "node \<Rightarrow> node \<Rightarrow> bool" where
  "semicolon_node n n' =
     (line_number n' = line_number n \<and>
      (if nested_code n = [] then
         nested_code n' = [] \<and>
         code_text n' = (if code_text n \<noteq> [] \<and> \<not> re_macro (code_text n)
                         then code_text n @ '';'' else code_text n)
       else
         code_text n' = code_text n \<and>
         nested_code n' = (if re_enum (code_text n) then nested_code n
                           else add_semicolon (nested_code n))))"

text \<open>The comment texts of a source string, as the lexical splitter finds them: the lines
  of its block comments and its line comments.\<close>

definition comment_texts :: "string \<Rightarrow> string multiset" where
  "comment_texts s =
     (case parse_raw_code (splitlines s) of
        (code, bcs, cms) \<Rightarrow> mset (concat (map snd bcs)) + mset (map snd cms))"

text \<open>A line without its trailing white space, and the lines of a string that are not
  blank.\<close>

definition rstrip :: "string \<Rightarrow> string" where
  "rstrip s = rev (dropWhile isspace (rev s))"

definition nonblank_lines :: "string \<Rightarrow> string list" where
  "nonblank_lines s = filter (\<lambda>l. strip l \<noteq> []) (splitlines s)"


subsection \<open>The body of the brace parser's loop, in named pieces\<close>

text \<open>The state after \<^verbatim>\<open>cm1 = c\<close>, \<^verbatim>\<open>c = codeLine[nC]\<close> and the switch of \<^verbatim>\<open>isQuotesOpen\<close>.\<close>

definition nc_start :: "string \<Rightarrow> nc_state \<Rightarrow> nat \<Rightarrow> nc_state" where
  "nc_start cl s j =
     s\<lparr>cm1 := cur s, cur := [cl ! j],
        isQuotesOpen := (if cl ! j = CHR 0x22 \<and> \<not> (cur s = [CHR 0x5C] \<and> j \<noteq> 0)
                         then \<not> isQuotesOpen s else isQuotesOpen s)\<rparr>"

text \<open>The state after the parenthesis flag is set and \<^verbatim>\<open>code_buf += c\<close>.\<close>

definition nc_buffered :: "string \<Rightarrow> nc_state \<Rightarrow> nat \<Rightarrow> nc_state" where
  "nc_buffered cl s1 j =
     (if \<not> isQuotesOpen s1 \<and> cl ! j = CHR ''('' then s1\<lparr>isParenOpen := True\<rparr>
      else if \<not> isQuotesOpen s1 \<and> cl ! j = CHR '')'' then s1\<lparr>isParenOpen := False\<rparr>
      else s1)
     \<lparr>code_buf :=
        code_buf (if \<not> isQuotesOpen s1 \<and> cl ! j = CHR ''('' then s1\<lparr>isParenOpen := True\<rparr>
                  else if \<not> isQuotesOpen s1 \<and> cl ! j = CHR '')'' then s1\<lparr>isParenOpen := False\<rparr>
                  else s1) @ [cl ! j]\<rparr>"

text \<open>The value of \<^verbatim>\<open>append_data\<close>.\<close>

definition nc_append_data ::
  "(int \<times> string) list \<Rightarrow> nat \<Rightarrow> string \<Rightarrow> nc_state \<Rightarrow> nat \<Rightarrow> bool" where
  "nc_append_data code nL cl s3 j =
     (\<not> isQuotesOpen s3 \<and>
      (if cl ! j = CHR '';'' \<and> \<not> isParenOpen s3 then True
       else if cl ! j = CHR '':''
               \<and> (re_access_modifier_raw (code_buf s3) \<or> re_switch_raw (code_buf s3))
       then \<not> (cm1 s3 = '':'' \<or> cp1_outer (map snd (drop nL code)) (length cl)
                                       [j + 1 ..< length cl] CHR '' '' = CHR '':'')
       else False))"

subsection \<open>Inputs of comment lines and macro lines\<close>

















section \<open>Theorems\<close>

subsection \<open>Direction detector\<close>

lemma isCurly_fold_counts:
  "n \<le> length code \<Longrightarrow>
   foldl (isCurly_step code) (a, b, c) [0 ..< n] =
     (a + ends_semicolon (map snd (take n code)),
      b + ends_colon (map snd (take n code)),
      c + length (filter (\<lambda>l. l \<noteq> []) (map snd (take n code))))"
proof (induction n)
  case 0
  then show ?case by (simp add: ends_semicolon_def ends_colon_def)
next
  case (Suc n)
  then have n: "n < length code" by simp
  have tk: "take (Suc n) code = take n code @ [code ! n]"
    using n by (simp add: take_Suc_conv_app_nth)
  show ?case
    using Suc.IH n
    by (simp add: tk isCurly_step_def ends_semicolon_def ends_colon_def Let_def)
qed

lemma isCurly_eq:
  "isCurly cd =
     (ends_colon (map snd (take (min 50000 (length cd)) cd))
        < ends_semicolon (map snd (take (min 50000 (length cd)) cd)))"
  by (simp add: isCurly_def Let_def isCurly_fold_counts)

text \<open>
  C5. \<^verbatim>\<open>isCurly\<close> looks at the first \<open>min 50000 (length code)\<close> entries only, counts among
  them the non-empty texts ending in \<open>;\<close> and those ending in \<open>:\<close>, and answers brace form
  exactly when the first count is strictly larger; ties and the empty stream give
  indentation form.
\<close>

theorem isCurly_counts:
  "isCurly code =
     (ends_colon (map snd (take (min 50000 (length code)) code))
        < ends_semicolon (map snd (take (min 50000 (length code)) code)))
   \<and> isCurly code = isCurly (take 50000 code)
   \<and> isCurly [] = False"
proof -
  have "take (min 50000 (length (take 50000 code))) (take 50000 code)
        = take (min 50000 (length code)) code"
    by (simp add: min_def)
  then have "isCurly (take 50000 code) = isCurly code"
    by (simp only: isCurly_eq)
  moreover have "isCurly [] = False"
    by (simp add: isCurly_eq ends_colon_def ends_semicolon_def)
  ultimately show ?thesis using isCurly_eq[of code] by simp
qed

text \<open>With no direction given, \<^verbatim>\<open>convert\<close> is the forced conversion in the direction
  \<^verbatim>\<open>isCurly\<close> finds.\<close>

lemma convert_auto:
  "parse_raw_code (splitlines s) = (code, bcs, cms) \<Longrightarrow> isCurly code = b \<Longrightarrow>
     convert s None = convert s (Some b)"
  by (simp add: convert_def)

subsection \<open>Inputs without code and comments\<close>








subsection \<open>Loops that can raise, and index ranges\<close>

lemma foldl_err_append:
  "foldl_err f s (xs @ ys) =
     (case foldl_err f s xs of Inl e \<Rightarrow> Inl e | Inr s' \<Rightarrow> foldl_err f s' ys)"
  by (induction xs arbitrary: s) (auto split: sum.splits)

lemma upt_split: "k < n \<Longrightarrow> [0 ..< n] = [0 ..< k] @ k # [Suc k ..< n]"
  by (induction n) (auto simp: less_Suc_eq)

subsection \<open>Semicolon insertion\<close>

text \<open>
  C6, as amended. \<^verbatim>\<open>add_semicolon\<close> keeps the shape of the tree and the line numbers, and
  appends \<open>;\<close> to every leaf whose text is not empty and is not a macro line, whether or
  not the text already ends in \<open>;\<close>; the text of a node with children is unchanged, the
  children of an \<^verbatim>\<open>enum\<close> node are left as they are, and the children of every other node
  are treated the same way.
\<close>

theorem add_semicolon_nodes: "list_all2 semicolon_node code (add_semicolon code)"
  by (induction code rule: add_semicolon.induct) (auto simp: semicolon_node_def)

text \<open>A leaf whose text already ends in \<open>;\<close> gets a second one; the forced conversion
  to brace form of the line \<open>int x;\<close> shows it in the output.\<close>

theorem add_semicolon_doubles:
  "add_semicolon [Node (Some 0) ''x;'' []] = [Node (Some 0) ''x;;'' []]
   \<and> convert ''int x;'' (Some False) = Inr ''int x;;\<newline>''"
proof -
  have a: "add_semicolon [Node (Some 0) ''x;'' []] = [Node (Some 0) ''x;;'' []]"
    by (simp add: re_macro_def)
  have b: "convert ''int x;'' (Some False) = Inr ''int x;;\<newline>''" by code_simp
  show ?thesis using a b by blast
qed

subsection \<open>Line number of the node flushed at an opening brace\<close>

lemma nc_char_unfold:
  "nc_char code nL cl s j =
     (if cl ! j = CHR 0x5C \<and> j = length cl - 1 then Inr s
      else if \<not> isQuotesOpen (nc_start cl s j) \<and> cl ! j = CHR '' '' \<and> cm1 (nc_start cl s j) = '' ''
      then Inr (nc_start cl s j)
      else if \<not> isQuotesOpen (nc_start cl s j) \<and> (cl ! j = CHR ''{'' \<or> cl ! j = CHR ''}'')
      then (case update_data (if cl ! j = CHR ''{'' then flush_line j (num_line (nc_start cl s j))
                              else num_line (nc_start cl s j))
                   (nI (nc_start cl s j)) (code_buf (nc_start cl s j)) (data (nc_start cl s j)) of
              Inl e \<Rightarrow> Inl e
            | Inr d \<Rightarrow>
                Inr ((nc_start cl s j)
                       \<lparr>num_line := (if cl ! j = CHR ''{'' then flush_line j (num_line (nc_start cl s j))
                                     else num_line (nc_start cl s j)),
                        code_buf := [], data := d,
                        nI := (if cl ! j = CHR ''{'' then nI (nc_start cl s j) + 1
                               else nI (nc_start cl s j) - 1)\<rparr>))
      else if nc_append_data code nL cl (nc_buffered cl (nc_start cl s j) j) j
      then (case update_data (flush_line j (num_line (nc_buffered cl (nc_start cl s j) j)))
                   (nI (nc_buffered cl (nc_start cl s j) j))
                   (code_buf (nc_buffered cl (nc_start cl s j) j))
                   (data (nc_buffered cl (nc_start cl s j) j)) of
              Inl e \<Rightarrow> Inl e
            | Inr d \<Rightarrow>
                Inr ((nc_buffered cl (nc_start cl s j) j)
                       \<lparr>num_line := flush_line j (num_line (nc_buffered cl (nc_start cl s j) j)),
                        code_buf := [], data := d\<rparr>))
      else Inr (nc_buffered cl (nc_start cl s j) j))"
  unfolding nc_char_def nc_start_def nc_buffered_def nc_append_data_def Let_def
  by (rule refl)

lemma num_line_nc_start: "num_line (nc_start cl s j) = num_line s"
  by (simp add: nc_start_def)

lemma num_line_nc_buffered: "num_line (nc_buffered cl s1 j) = num_line s1"
  by (simp add: nc_buffered_def)

lemma nc_append_data_char:
  "nc_append_data code nL cl s3 j \<Longrightarrow> cl ! j = CHR '';'' \<or> cl ! j = CHR '':''"
  by (auto simp: nc_append_data_def split: if_splits)

lemma nc_char_num_line_cases:
  assumes "nc_char code nL cl s j = Inr s'"
  shows "num_line s' = num_line s
         \<or> (num_line s' = flush_line j (num_line s) \<and> cl ! j \<in> {CHR ''{'', CHR '';'', CHR '':''})"
  using assms
  by (auto simp: nc_char_unfold num_line_nc_start num_line_nc_buffered
           split: if_splits sum.splits dest: nc_append_data_char)

lemma nc_char_num_line_later:
  "nc_char code nL cl s j = Inr s' \<Longrightarrow> 0 < j \<Longrightarrow> num_line s' = num_line s"
  using nc_char_num_line_cases[of code nL cl s j s'] by (auto simp: flush_line_def)

lemma nc_char_num_line_first:
  "nc_char code nL cl s 0 = Inr s' \<Longrightarrow>
     (num_line s' = num_line s \<or> num_line s' = num_line s - 1)
     \<and> (cl ! 0 \<notin> {CHR ''{'', CHR '';'', CHR '':''} \<longrightarrow> num_line s' = num_line s)"
  using nc_char_num_line_cases[of code nL cl s 0 s'] by (auto simp: flush_line_def split: if_splits)

lemma modify_at_append_last:
  "modify_at n (\<lambda>d. Inr (d @ [x])) ns = Inr ns' \<Longrightarrow> last_at n ns' = Some x"
proof (induction n arbitrary: ns ns')
  case 0
  then show ?case by auto
next
  case (Suc n)
  then show ?case by (auto split: if_splits sum.splits)
qed

lemma nc_fold_num_line_later:
  "foldl_err (nc_char code nL cl) s [a ..< b] = Inr s' \<Longrightarrow> 0 < a \<Longrightarrow> num_line s' = num_line s"
proof (induction b arbitrary: s')
  case 0
  then show ?case by simp
next
  case (Suc b)
  show ?case
  proof (cases "a \<le> b")
    case True
    then have "[a ..< Suc b] = [a ..< b] @ [b]" by simp
    with Suc.prems obtain t where t: "foldl_err (nc_char code nL cl) s [a ..< b] = Inr t"
      and st: "nc_char code nL cl t b = Inr s'"
      by (auto simp: foldl_err_append split: sum.splits)
    from True Suc.prems have "0 < b" by simp
    with st have "num_line s' = num_line t" using nc_char_num_line_later by blast
    with Suc.IH[OF t] Suc.prems show ?thesis by simp
  next
    case False
    with Suc.prems show ?thesis by simp
  qed
qed

lemma nc_line_split:
  assumes "code ! nL = (n, cl)" "cl \<noteq> []" "hd cl \<noteq> CHR ''#''" "k < length cl"
  shows "nc_line code s nL =
           (case foldl_err (nc_char code nL cl) (s\<lparr>num_line := n\<rparr>) [0 ..< k] of
              Inl e \<Rightarrow> Inl e
            | Inr sk \<Rightarrow>
                (case nc_char code nL cl sk k of
                   Inl e \<Rightarrow> Inl e
                 | Inr s' \<Rightarrow> foldl_err (nc_char code nL cl) s' [Suc k ..< length cl]))"
proof -
  have "[0 ..< length cl] = [0 ..< k] @ k # [Suc k ..< length cl]"
    using assms(4) by (rule upt_split)
  then show ?thesis
    using assms by (simp add: nc_line_def foldl_err_append split: sum.splits)
qed

lemma nest_curly_split:
  assumes "nL < length code"
  shows "nest_curly code =
           (case foldl_err (nc_line code) nc_init [0 ..< nL] of
              Inl e \<Rightarrow> Inl e
            | Inr s \<Rightarrow>
                (case nc_line code s nL of
                   Inl e \<Rightarrow> Inl e
                 | Inr s2 \<Rightarrow>
                     (case foldl_err (nc_line code) s2 [Suc nL ..< length code] of
                        Inl e \<Rightarrow> Inl e
                      | Inr s3 \<Rightarrow> Inr (data s3))))"
proof -
  have "[0 ..< length code] = [0 ..< nL] @ nL # [Suc nL ..< length code]"
    using assms by (rule upt_split)
  then show ?thesis
    by (simp add: nest_curly_def foldl_err_append split: sum.splits)
qed

lemma nc_char_brace_flush:
  assumes "cl ! k = CHR ''{''" and "\<not> isQuotesOpen sk"
    and "nc_char code nL cl sk k = Inr s'"
  shows "last_at (nat (nI sk)) (data s') =
           Some (Node (Some (num_line s')) (strip (code_buf sk)) [])
         \<and> num_line s' = flush_line k (num_line sk)"
  using assms
  by (auto simp: nc_char_def Let_def update_data_def
           split: if_splits sum.splits dest: modify_at_append_last)

text \<open>
  C7, as amended. In \<^verbatim>\<open>nest_curly\<close>, let the code line \<open>nL\<close> have the number \<open>n\<close> and the text
  \<open>cl\<close>, not a macro line, and let its character at column \<open>k\<close> be \<open>{\<close> outside a string
  literal. The node flushed there, the last one at the current depth, carries the text
  buffered so far and a line number that is: \<open>n - 1\<close> when \<open>k = 0\<close> (the brace is the first
  character of the code line, with no white space before it) and \<open>n\<close> is not \<open>0\<close>; \<open>0\<close> when
  \<open>k = 0\<close> and \<open>n = 0\<close>; and for \<open>k > 0\<close> either \<open>n\<close> or \<open>n - 1\<close>, and \<open>n\<close> whenever the first
  character of the line is none of \<open>{\<close>, \<open>;\<close> and \<open>:\<close> (only a flush at column \<open>0\<close> lowers the
  number). The number used at the brace stays in force for the rest of the line. Here \<open>s\<close>
  is the state \<^verbatim>\<open>nest_curly\<close> has reached before line \<open>nL\<close>, \<open>sk\<close> the state before column \<open>k\<close>
  and \<open>s'\<close> the state after it, from which \<^verbatim>\<open>nest_curly\<close> goes on to its result.
\<close>

theorem nest_curly_open_brace_line:
  assumes len: "nL < length code"
    and start: "foldl_err (nc_line code) nc_init [0 ..< nL] = Inr s"
    and line: "code ! nL = (n, cl)" "cl \<noteq> []" "hd cl \<noteq> CHR ''#''"
    and col: "k < length cl" "cl ! k = CHR ''{''"
    and before: "foldl_err (nc_char code nL cl) (s\<lparr>num_line := n\<rparr>) [0 ..< k] = Inr sk"
    and quotes: "\<not> isQuotesOpen sk"
    and step: "nc_char code nL cl sk k = Inr s'"
  shows "nest_curly code =
           (case foldl_err (nc_char code nL cl) s' [Suc k ..< length cl] of
              Inl e \<Rightarrow> Inl e
            | Inr s2 \<Rightarrow>
                (case foldl_err (nc_line code) s2 [Suc nL ..< length code] of
                   Inl e \<Rightarrow> Inl e
                 | Inr s3 \<Rightarrow> Inr (data s3)))
         \<and> last_at (nat (nI sk)) (data s') =
             Some (Node (Some (num_line s')) (strip (code_buf sk)) [])
         \<and> (k = 0 \<longrightarrow> num_line s' = (if n = 0 then 0 else n - 1))
         \<and> (0 < k \<longrightarrow> (num_line s' = n \<or> num_line s' = n - 1)
                       \<and> (cl ! 0 \<notin> {CHR ''{'', CHR '';'', CHR '':''} \<longrightarrow> num_line s' = n))
         \<and> (\<forall>j sj. foldl_err (nc_char code nL cl) s' [Suc k ..< j] = Inr sj
                     \<longrightarrow> num_line sj = num_line s')"
proof -
  have run: "nc_line code s nL = foldl_err (nc_char code nL cl) s' [Suc k ..< length cl]"
    using nc_line_split[OF line col(1), of s] before step by simp
  have whole: "nest_curly code =
           (case foldl_err (nc_char code nL cl) s' [Suc k ..< length cl] of
              Inl e \<Rightarrow> Inl e
            | Inr s2 \<Rightarrow>
                (case foldl_err (nc_line code) s2 [Suc nL ..< length code] of
                   Inl e \<Rightarrow> Inl e
                 | Inr s3 \<Rightarrow> Inr (data s3)))"
    using nest_curly_split[OF len] start run by simp
  note fl = nc_char_brace_flush[OF col(2) quotes step]
  have first: "k = 0 \<longrightarrow> num_line s' = (if n = 0 then 0 else n - 1)"
  proof
    assume k: "k = 0"
    with before have "sk = s\<lparr>num_line := n\<rparr>" by simp
    with fl k show "num_line s' = (if n = 0 then 0 else n - 1)"
      by (simp add: flush_line_def)
  qed
  have later: "0 < k \<longrightarrow> (num_line s' = n \<or> num_line s' = n - 1)
                       \<and> (cl ! 0 \<notin> {CHR ''{'', CHR '';'', CHR '':''} \<longrightarrow> num_line s' = n)"
  proof
    assume k: "0 < k"
    then have "[0 ..< k] = [0] @ [Suc 0 ..< k]"
      using upt_split[of 0 k] by simp
    with before obtain s1 where s1: "nc_char code nL cl (s\<lparr>num_line := n\<rparr>) 0 = Inr s1"
      and rest: "foldl_err (nc_char code nL cl) s1 [Suc 0 ..< k] = Inr sk"
      by (auto simp: foldl_err_append split: sum.splits)
    from nc_fold_num_line_later[OF rest] have a: "num_line sk = num_line s1" by simp
    from fl k have b: "num_line s' = num_line sk" by (simp add: flush_line_def)
    from nc_char_num_line_first[OF s1] a b
    show "(num_line s' = n \<or> num_line s' = n - 1)
            \<and> (cl ! 0 \<notin> {CHR ''{'', CHR '';'', CHR '':''} \<longrightarrow> num_line s' = n)"
      by simp
  qed
  have stays: "\<forall>j sj. foldl_err (nc_char code nL cl) s' [Suc k ..< j] = Inr sj
                     \<longrightarrow> num_line sj = num_line s'"
    using nc_fold_num_line_later by blast
  show ?thesis using whole fl first later stays by blast
qed

theorem nest_curly_open_brace_line_witness:
  "1 < length [(0, ''int f()''), (1, ''{''), (2::int, ''}'')]
   \<and> foldl_err (nc_line [(0, ''int f()''), (1, ''{''), (2, ''}'')]) nc_init [0 ..< 1] =
       Inr \<lparr>cur = '')'', cm1 = ''('', nI = 0, code_buf = ''int f()'', data = [],
            isParenOpen = False, isQuotesOpen = False, num_line = 0\<rparr>
   \<and> [(0, ''int f()''), (1, ''{''), (2, ''}'')] ! 1 = (1::int, ''{'')
   \<and> ''{'' \<noteq> [] \<and> hd ''{'' \<noteq> CHR ''#'' \<and> 0 < length ''{'' \<and> ''{'' ! 0 = CHR ''{''
   \<and> nc_char [(0, ''int f()''), (1, ''{''), (2, ''}'')] 1 ''{''
         \<lparr>cur = '')'', cm1 = ''('', nI = 0, code_buf = ''int f()'', data = [],
          isParenOpen = False, isQuotesOpen = False, num_line = 1\<rparr> 0 =
       Inr \<lparr>cur = ''{'', cm1 = '')'', nI = 1, code_buf = [],
            data = [Node (Some 0) ''int f()'' []],
            isParenOpen = False, isQuotesOpen = False, num_line = 0\<rparr>
   \<and> last_at 0 [Node (Some 0) ''int f()'' []] = Some (Node (Some 0) ''int f()'' [])
   \<and> nest_curly [(0, ''int f()''), (1, ''{''), (2, ''}'')] =
       Inr [Node (Some 0) ''int f()'' [Node (Some 2) [] []]]"
proof -
  let ?code = "[(0, ''int f()''), (1, ''{''), (2::int, ''}'')]"
  let ?s = "\<lparr>cur = '')'', cm1 = ''('', nI = 0, code_buf = ''int f()'', data = [],
            isParenOpen = False, isQuotesOpen = False, num_line = 0\<rparr>"
  let ?sk = "\<lparr>cur = '')'', cm1 = ''('', nI = 0, code_buf = ''int f()'', data = [],
            isParenOpen = False, isQuotesOpen = False, num_line = 1\<rparr>"
  let ?s' = "\<lparr>cur = ''{'', cm1 = '')'', nI = 1, code_buf = [],
            data = [Node (Some 0) ''int f()'' []],
            isParenOpen = False, isQuotesOpen = False, num_line = 0\<rparr>"
  have len: "1 < length ?code" by simp
  have start: "foldl_err (nc_line ?code) nc_init [0 ..< 1] = Inr ?s" by code_simp
  have line: "?code ! 1 = (1, ''{'')" "''{'' \<noteq> []" "hd ''{'' \<noteq> CHR ''#''" by simp_all
  have col: "0 < length ''{''" "''{'' ! 0 = CHR ''{''" by simp_all
  have before: "foldl_err (nc_char ?code 1 ''{'') (?s\<lparr>num_line := 1\<rparr>) [0 ..< 0] = Inr ?sk"
    by simp
  have quotes: "\<not> isQuotesOpen ?sk" by simp
  have step: "nc_char ?code 1 ''{'' ?sk 0 = Inr ?s'" by code_simp
  have whole: "nest_curly ?code = Inr [Node (Some 0) ''int f()'' [Node (Some 2) [] []]]"
    by code_simp
  have "last_at 0 [Node (Some 0) ''int f()'' []] = Some (Node (Some 0) ''int f()'' [])"
    using nest_curly_open_brace_line[OF len start line col before quotes step]
    by simp
  then show ?thesis using len start line col step whole by simp
qed

text \<open>An opening brace after white space is the first character that is not a space of
  its line, yet the node it flushes keeps the line's number \<open>1\<close>; and the second brace of
  the line \<open>{{\<close> is no such character, yet its node gets the number of the line before.\<close>

theorem nest_curly_indented_brace:
  "nest_curly [(0, ''int f()''), (1, ''  {''), (2, ''}'')] =
     Inr [Node (Some 1) ''int f()'' [Node (Some 2) [] []]]
   \<and> nest_curly [(3, ''{{'')] = Inr [Node (Some 2) [] [Node (Some 2) [] []]]
   \<and> parse_raw_code (splitlines ''int f()\<newline>  {\<newline>}'') =
       ([(0, ''int f()''), (1, ''  {''), (2, ''}'')], [], [])"
proof -
  have a: "nest_curly [(0, ''int f()''), (1, ''  {''), (2, ''}'')] =
     Inr [Node (Some 1) ''int f()'' [Node (Some 2) [] []]]" by code_simp
  have b: "nest_curly [(3, ''{{'')] = Inr [Node (Some 2) [] [Node (Some 2) [] []]]"
    by code_simp
  have c: "parse_raw_code (splitlines ''int f()\<newline>  {\<newline>}'') =
       ([(0, ''int f()''), (1, ''  {''), (2, ''}'')], [], [])" by code_simp
  show ?thesis using a b c by blast
qed

subsection \<open>Aliases dragged behind the closing brace\<close>

lemma alias_re_length: "alias_re c \<Longrightarrow> (1 < length c) = (c \<noteq> '';'')"
  by (cases c; cases "tl c") (auto simp: alias_re_def Let_def)

lemma drag_step_state:
  "drag_step (code, prev) (w, c, b, l) = Inr (acc, prev') \<Longrightarrow>
     acc \<noteq> [] \<and> prev' = Some [last ('' '' @ c)]"
  by (auto simp: drag_step_def upd_last_def split: if_splits option.splits)

lemma drag_aliases_last:
  assumes "drag_aliases (xs @ [(w, c, b, l)]) = Inr (acc, prev)"
  shows "acc \<noteq> [] \<and> prev = Some [last ('' '' @ c)]"
proof -
  from assms obtain st where st: "foldl_err drag_step ([], None) xs = Inr st"
    and step: "drag_step st (w, c, b, l) = Inr (acc, prev)"
    by (auto simp: drag_aliases_def foldl_err_append split: sum.splits)
  then show ?thesis by (cases st) (auto dest: drag_step_state)
qed

text \<open>When the loop has not raised, an entry whose code matches the alias pattern and
  that comes right after an entry whose code ends in \<open>}\<close> is not appended: its code is added
  to the code of the last entry kept so far, after one space unless the code is just \<open>;\<close>,
  and its block comment and line comment are added to that entry's comments.\<close>

lemma drag_aliases_merge:
  assumes run: "drag_aliases (xs @ [(pw, pc, pb, pl)]) = Inr (acc, prev)"
    and brace: "ends_with pc CHR ''}''"
    and al: "alias_re c"
  shows "acc \<noteq> [] \<and>
         drag_aliases (xs @ [(pw, pc, pb, pl), (w, c, b, l)]) =
           Inr (butlast acc @
                  [(case last acc of (w0, c0, b0, l0) \<Rightarrow>
                      (w0, c0 @ (if c = '';'' then [] else '' '') @ c, b0 @ b, l0 @ l))],
                Some [last c])"
proof -
  from drag_aliases_last[OF run] brace have ne: "acc \<noteq> []" and prev: "prev = Some ''}''"
    by (auto simp: ends_with_def)
  from al have c_ne: "c \<noteq> []" by (auto simp: alias_re_def)
  have "drag_aliases (xs @ [(pw, pc, pb, pl), (w, c, b, l)]) =
          drag_step (acc, prev) (w, c, b, l)"
    using run foldl_err_append[of drag_step "([], None)" "xs @ [(pw, pc, pb, pl)]" "[(w, c, b, l)]"]
    by (simp add: drag_aliases_def split: sum.splits)
  also have "\<dots> = Inr (butlast acc @
                  [(case last acc of (w0, c0, b0, l0) \<Rightarrow>
                      (w0, c0 @ (if c = '';'' then [] else '' '') @ c, b0 @ b, l0 @ l))],
                Some [last c])"
    using ne prev al c_ne alias_re_length[OF al]
    by (auto simp: drag_step_def upd_last_def split: prod.splits)
  finally show ?thesis using ne by simp
qed

lemma drag_aliases_merge_example:
  "drag_aliases ([] @ [([], ''}'', [], [])]) = Inr ([([], ''}'', [], [])], Some ''}'')
   \<and> ends_with ''}'' CHR ''}'' \<and> alias_re ''T, U;''
   \<and> drag_aliases ([] @ [([], ''}'', [], []), ([], ''T, U;'', [], ''// c'')]) =
       Inr ([([], ''} T, U;'', [], ''// c'')], Some '';'')"
proof -
  have a: "drag_aliases ([] @ [([], ''}'', [], [])]) = Inr ([([], ''}'', [], [])], Some ''}'')"
    by code_simp
  have b: "ends_with ''}'' CHR ''}''" by (simp add: ends_with_def)
  have c: "alias_re ''T, U;''" by code_simp
  have "drag_aliases ([] @ [([], ''}'', [], []), ([], ''T, U;'', [], ''// c'')]) =
       Inr ([([], ''} T, U;'', [], ''// c'')], Some '';'')"
    using drag_aliases_merge[OF a b c, of "[]" "[]" "''// c''"] by simp
  then show ?thesis using a b c by blast
qed

text \<open>The brace-form output of a type definition with aliases has them on the line of
  the closing brace.\<close>

lemma convert_typedef_aliases:
  "convert ''typedef struct S, T, U:\<newline>    int a'' (Some False) =
     Inr ''typedef struct S {\<newline>    int a;\<newline>} T, U;\<newline>''"
  by code_simp

text \<open>
  C10. An entry that matches the alias pattern right after an entry ending in \<open>}\<close> is meant
  to be merged onto that entry, and the loop of \<^verbatim>\<open>cosmetic_lines\<close> does so once it runs; but
  it reads \<^verbatim>\<open>prev_char\<close> before any assignment when the first entry matches the pattern.
  Then \<^verbatim>\<open>cosmetic_lines\<close> raises and the alias \<open>T;\<close> after the closing brace is never merged:
  \<^verbatim>\<open>convert\<close> has no output.
\<close>

theorem cosmetic_lines_raises_before_merge:
  "cosmetic_lines [([], ''x;'', [], []), ([], ''}'', [], []), ([], ''T;'', [], [])] =
     Inl UnboundLocalError
   \<and> convert ''x\<newline>struct S, T:\<newline>    int a'' (Some False) = Inl UnboundLocalError
   \<and> convert ''x\<newline>struct S, T:\<newline>    int a'' None = Inl UnboundLocalError
   \<and> convert ''struct S, T:\<newline>    int a'' (Some False) =
       Inr ''struct S {\<newline>    int a;\<newline>} T;\<newline>''"
proof -
  have a: "cosmetic_lines [([], ''x;'', [], []), ([], ''}'', [], []), ([], ''T;'', [], [])] =
     Inl UnboundLocalError" by code_simp
  have p: "parse_raw_code (splitlines ''x\<newline>struct S, T:\<newline>    int a'') =
             ([(0, ''x''), (1, ''struct S, T:''), (2, ''    int a'')], [], [])" by code_simp
  have c: "isCurly [(0, ''x''), (1, ''struct S, T:''), (2, ''    int a'')] = False"
    by (simp add: isCurly_eq ends_colon_def ends_semicolon_def)
  have b: "convert ''x\<newline>struct S, T:\<newline>    int a'' (Some False) = Inl UnboundLocalError"
    by code_simp
  have d: "convert ''struct S, T:\<newline>    int a'' (Some False) =
       Inr ''struct S {\<newline>    int a;\<newline>} T;\<newline>''" by code_simp
  show ?thesis using convert_auto[OF p c] a b d by simp
qed

subsection \<open>Exceptions\<close>

text \<open>
  C1. \<^verbatim>\<open>convert\<close> is meant to return a string for every input, but it raises: on the
  one-line input \<open>x\<close>, whose brace form \<open>x;\<close> matches the alias pattern in the first entry
  of \<^verbatim>\<open>cosmetic_lines\<close>, \<^verbatim>\<open>prev_char\<close> is read before it is assigned; and on an input
  whose first line is indented, \<^verbatim>\<open>nest_indented\<close> takes the last element of an empty list.
\<close>

theorem convert_raises:
  "convert ''x'' None = Inl UnboundLocalError
   \<and> convert ''x'' (Some False) = Inl UnboundLocalError
   \<and> convert ''    x'' None = Inl IndexError
   \<and> convert ''    x'' (Some False) = Inl IndexError"
proof -
  have p: "parse_raw_code (splitlines ''x'') = ([(0, ''x'')], [], [])" by code_simp
  have c: "isCurly [(0, ''x'')] = False"
    by (simp add: isCurly_eq ends_colon_def ends_semicolon_def)
  have a: "convert ''x'' (Some False) = Inl UnboundLocalError" by code_simp
  have q: "parse_raw_code (splitlines ''    x'') = ([(0, ''    x'')], [], [])" by code_simp
  have d: "isCurly [(0, ''    x'')] = False"
    by (simp add: isCurly_eq ends_colon_def ends_semicolon_def)
  have b: "convert ''    x'' (Some False) = Inl IndexError" by code_simp
  show ?thesis using convert_auto[OF p c] convert_auto[OF q d] a b by simp
qed

subsection \<open>Comments\<close>

text \<open>
  C2. The comments of the input are meant to reach the output, each once, but
  \<^verbatim>\<open>merge_comments\<close> stores line comments in a dictionary under the renumbered line: when
  an alias line is joined to the line of its type definition, the comment of the alias
  line replaces the comment of that line. Here \<open>// a\<close> is lost.
\<close>

theorem convert_drops_comment:
  "convert ''\<newline>struct S{} // a\<newline>T; // b'' None = Inr ''struct S, T: // b\<newline>''
   \<and> comment_texts ''\<newline>struct S{} // a\<newline>T; // b'' = {#''// a'', ''// b''#}
   \<and> comment_texts ''struct S, T: // b\<newline>'' = {#''// b''#}
   \<and> comment_texts ''struct S, T: // b\<newline>'' \<noteq> comment_texts ''\<newline>struct S{} // a\<newline>T; // b''"
proof -
  have p: "parse_raw_code (splitlines ''\<newline>struct S{} // a\<newline>T; // b'') =
             ([(1, ''struct S{}''), (2, ''T;'')], [], [(1, ''// a''), (2, ''// b'')])"
    by code_simp
  have c: "isCurly [(1, ''struct S{}''), (2, ''T;'')] = True"
    by (simp add: isCurly_eq ends_colon_def ends_semicolon_def)
  have a: "convert ''\<newline>struct S{} // a\<newline>T; // b'' (Some True) = Inr ''struct S, T: // b\<newline>''"
    by code_simp
  have q: "parse_raw_code (splitlines ''struct S, T: // b\<newline>'') =
             ([(0, ''struct S, T:'')], [], [(0, ''// b'')])"
    by code_simp
  have m: "comment_texts ''\<newline>struct S{} // a\<newline>T; // b'' = {#''// a'', ''// b''#}"
    by (simp add: comment_texts_def p)
  have n: "comment_texts ''struct S, T: // b\<newline>'' = {#''// b''#}"
    by (simp add: comment_texts_def q)
  have "{#''// b''#} \<noteq> {#''// a'', ''// b''#}" by simp
  then show ?thesis using convert_auto[OF p c] a m n by simp
qed

subsection \<open>Macro lines\<close>

text \<open>
  C3. A macro line of the input is meant to reach the output as it is, and
  \<^verbatim>\<open>add_semicolon\<close> and \<^verbatim>\<open>rem_colon\<close> do leave a line starting with \<open>#\<close> alone, but
  \<^verbatim>\<open>rem_semicolon\<close> does not look for the \<open>#\<close>: a macro line that ends in \<open>;\<close> loses it on
  the way to indentation form.
\<close>

theorem convert_alters_macro:
  "convert ''#define X a;'' None = Inr ''#define X a\<newline>''
   \<and> convert ''#define X a;'' (Some True) = Inr ''#define X a\<newline>''
   \<and> rstrip ''#define X a;'' \<notin> set (map rstrip (splitlines ''#define X a\<newline>''))
   \<and> rem_semicolon [Node (Some 0) ''#define X a;'' []] = [Node (Some 0) ''#define X a'' []]
   \<and> add_semicolon [Node (Some 0) ''#define X a'' []] = [Node (Some 0) ''#define X a'' []]"
proof -
  have p: "parse_raw_code (splitlines ''#define X a;'') = ([(0, ''#define X a;'')], [], [])"
    by code_simp
  have c: "isCurly [(0, ''#define X a;'')] = True"
    by (simp add: isCurly_eq ends_colon_def ends_semicolon_def)
  have a: "convert ''#define X a;'' (Some True) = Inr ''#define X a\<newline>''" by code_simp
  have b: "rstrip ''#define X a;'' \<notin> set (map rstrip (splitlines ''#define X a\<newline>''))"
    by code_simp
  have d: "rem_semicolon [Node (Some 0) ''#define X a;'' []] = [Node (Some 0) ''#define X a'' []]"
    by code_simp
  have e: "add_semicolon [Node (Some 0) ''#define X a'' []] = [Node (Some 0) ''#define X a'' []]"
    by code_simp
  show ?thesis using convert_auto[OF p c] a b d e by simp
qed

subsection \<open>Access modifiers\<close>

text \<open>
  C8. The one-line brace form \<open>class A { public: int x; private: int y; };\<close> is converted
  to indentation form, whether the direction is forced or detected, with exactly these
  lines that are not blank, in this order: \<open>class A:\<close>, \<open>public:\<close> one level in, \<open>int x\<close>
  two levels in, \<open>private:\<close> one level in, \<open>int y\<close> two levels in. The members are nested
  under their access modifier and the \<open>;\<close> after the class is gone.
\<close>

theorem convert_access_modifier_example:
  "convert ''class A { public: int x; private: int y; };'' (Some True) =
     Inr ''class A:\<newline>    public:\<newline>        int x\<newline>    private:\<newline>        int y\<newline>''
   \<and> convert ''class A { public: int x; private: int y; };'' None =
     Inr ''class A:\<newline>    public:\<newline>        int x\<newline>    private:\<newline>        int y\<newline>''
   \<and> nonblank_lines ''class A:\<newline>    public:\<newline>        int x\<newline>    private:\<newline>        int y\<newline>'' =
     [''class A:'', ''    public:'', ''        int x'', ''    private:'', ''        int y'']"
proof -
  have p: "parse_raw_code (splitlines ''class A { public: int x; private: int y; };'') =
             ([(0, ''class A { public: int x; private: int y; };'')], [], [])"
    by code_simp
  have c: "isCurly [(0, ''class A { public: int x; private: int y; };'')] = True"
    by (simp add: isCurly_eq ends_colon_def ends_semicolon_def)
  have a: "convert ''class A { public: int x; private: int y; };'' (Some True) =
     Inr ''class A:\<newline>    public:\<newline>        int x\<newline>    private:\<newline>        int y\<newline>''"
    by code_simp
  have b: "nonblank_lines ''class A:\<newline>    public:\<newline>        int x\<newline>    private:\<newline>        int y\<newline>'' =
     [''class A:'', ''    public:'', ''        int x'', ''    private:'', ''        int y'']"
    by code_simp
  show ?thesis using convert_auto[OF p c] a b by simp
qed

subsection \<open>Applying the conversion to its own output\<close>

subsubsection \<open>Lines and line boundaries\<close>






subsubsection \<open>The lexical splitter on comment lines and macro lines\<close>
















subsubsection \<open>Both pipelines on a code stream of macro lines\<close>


















subsubsection \<open>The comment merger on distinct, increasing line numbers\<close>










subsubsection \<open>The cosmetic layer and the output\<close>









subsubsection \<open>The output read again\<close>











end
